theory Spec2Isabelle
  imports Main "HOL-Library.Word"
begin

section \<open>Python values, errors and byte strings\<close>

text \<open>
  The observer is Python. A \<open>bytes\<close> object is a list of 8-bit words, a \<open>str\<close> is a
  \<open>string\<close> (its UTF-8 bytes), an \<open>int\<close> is an unbounded \<open>int\<close>. Every exception the
  modelled code can raise is a constructor of \<open>error\<close>; a function that can raise
  returns \<open>error + 'a\<close> with \<open>Inl\<close> for the exception.
\<close>

type_synonym byte = "8 word"
type_synonym bytes = "byte list"

datatype error =
    KeyError string
  | ValueError
  | TypeError
  | AttributeError
  | OverflowError
  | AssertionError
  | OSError

text \<open>The values a decoded log argument (\<open>dict[str, Any]\<close>) can hold.\<close>

datatype py_value =
    PyNone
  | PyBool bool
  | PyInt int
  | PyStr string
  | PyBytes bytes
  | PyList "py_value list"

text \<open>Sequencing of computations that may raise: the first exception wins.\<close>

definition bind_err :: "error + 'a \<Rightarrow> ('a \<Rightarrow> error + 'b) \<Rightarrow> error + 'b" where
  "bind_err m f = (case m of Inl e \<Rightarrow> Inl e | Inr x \<Rightarrow> f x)"

text \<open>\<open>d[k]\<close> on a dict: \<open>KeyError\<close> when the key is absent.\<close>

definition getitem :: "(string \<rightharpoonup> 'v) \<Rightarrow> string \<Rightarrow> error + 'v" where
  "getitem d k = (case d k of None \<Rightarrow> Inl (KeyError k) | Some v \<Rightarrow> Inr v)"

text \<open>\<open>bytes.hex()\<close>: two lowercase hexadecimal digits per byte, no prefix.\<close>

definition hex_digit :: "nat \<Rightarrow> char" where
  "hex_digit n = ''0123456789abcdef'' ! (n mod 16)"

definition byte_hex :: "byte \<Rightarrow> string" where
  "byte_hex b = [hex_digit (unat b div 16), hex_digit (unat b mod 16)]"

definition bytes_hex :: "bytes \<Rightarrow> string" where
  "bytes_hex bs = concat (map byte_hex bs)"

text \<open>
  \<open>x.hex()\<close> on a decoded argument: only \<open>bytes\<close> has the method among the values
  modelled, anything else raises \<open>AttributeError\<close>.
\<close>

fun py_hex :: "py_value \<Rightarrow> error + string" where
  "py_hex (PyBytes bs) = Inr (bytes_hex bs)"
| "py_hex v = Inl AttributeError"

text \<open>
  \<open>int(x)\<close>. An \<open>int\<close> is returned as it is and a \<open>bool\<close> as 0 or 1; \<open>None\<close> and a
  list raise \<open>TypeError\<close>. On a \<open>str\<close> or \<open>bytes\<close> Python parses an integer literal
  and raises \<open>ValueError\<close> when there is none: that parser is the interpreter's and
  is the parameter \<open>int_literal\<close>.
\<close>

definition bytes_text :: "bytes \<Rightarrow> string" where
  "bytes_text bs = map (\<lambda>b. char_of (unat b)) bs"

fun py_int :: "(string \<Rightarrow> int option) \<Rightarrow> py_value \<Rightarrow> error + int" where
  "py_int int_literal (PyInt n) = Inr n"
| "py_int int_literal (PyBool b) = Inr (if b then 1 else 0)"
| "py_int int_literal (PyStr s) =
     (case int_literal s of None \<Rightarrow> Inl ValueError | Some n \<Rightarrow> Inr n)"
| "py_int int_literal (PyBytes bs) =
     (case int_literal (bytes_text bs) of None \<Rightarrow> Inl ValueError | Some n \<Rightarrow> Inr n)"
| "py_int int_literal PyNone = Inl TypeError"
| "py_int int_literal (PyList vs) = Inl TypeError"

text \<open>
  Iterating a value in a comprehension: a list yields its elements, a \<open>str\<close> its
  one-character strings, \<open>bytes\<close> its bytes as ints; the others are not iterable.
\<close>

fun py_iter :: "py_value \<Rightarrow> error + py_value list" where
  "py_iter (PyList vs) = Inr vs"
| "py_iter (PyStr s) = Inr (map (\<lambda>c. PyStr [c]) s)"
| "py_iter (PyBytes bs) = Inr (map (\<lambda>b. PyInt (uint b)) bs)"
| "py_iter v = Inl TypeError"

text \<open>\<open>[int(v) for v in vs]\<close>: stops at the first element that raises.\<close>

fun int_each :: "(string \<Rightarrow> int option) \<Rightarrow> py_value list \<Rightarrow> error + int list" where
  "int_each int_literal [] = Inr []"
| "int_each int_literal (v # vs) =
     bind_err (py_int int_literal v) (\<lambda>n.
     bind_err (int_each int_literal vs) (\<lambda>ns. Inr (n # ns)))"

text \<open>
  A slice \<open>x[i:j]\<close> with \<open>0 \<le> i \<le> j\<close>: Python never raises on a short sequence, it
  returns what is there. Values that are not sequences raise \<open>TypeError\<close>.
\<close>

fun py_slice :: "py_value \<Rightarrow> nat \<Rightarrow> nat \<Rightarrow> error + py_value" where
  "py_slice (PyBytes bs) i j = Inr (PyBytes (take (j - i) (drop i bs)))"
| "py_slice (PyStr s) i j = Inr (PyStr (take (j - i) (drop i s)))"
| "py_slice (PyList vs) i j = Inr (PyList (take (j - i) (drop i vs)))"
| "py_slice v i j = Inl TypeError"

text \<open>
  \<open>n.to_bytes(length, "big")\<close> (unsigned): \<open>OverflowError\<close> for a negative \<open>n\<close> and
  for one that does not fit; otherwise the \<open>length\<close> bytes of \<open>n\<close>, most significant
  first.
\<close>

fun big_endian :: "nat \<Rightarrow> int \<Rightarrow> bytes" where
  "big_endian 0 n = []"
| "big_endian (Suc k) n = big_endian k (n div 256) @ [word_of_int n]"

definition to_bytes :: "int \<Rightarrow> nat \<Rightarrow> error + bytes" where
  "to_bytes n len =
     (if n < 0 \<or> 2 ^ (8 * len) \<le> n then Inl OverflowError else Inr (big_endian len n))"

text \<open>
  \<open>bytes.fromhex(s)\<close> as CPython reads it: ASCII whitespace is skipped before a
  byte, a byte is two hexadecimal digits of either case, and anything else, an odd
  digit at the end included, raises \<open>ValueError\<close>. The length is not looked at.
\<close>

definition is_space :: "char \<Rightarrow> bool" where
  "is_space c = (of_char c \<in> {9, 10, 11, 12, 13, 32 :: nat})"

definition hex_value :: "char \<Rightarrow> nat option" where
  "hex_value c =
     (let n = (of_char c :: nat) in
      if 48 \<le> n \<and> n \<le> 57 then Some (n - 48)
      else if 97 \<le> n \<and> n \<le> 102 then Some (n - 87)
      else if 65 \<le> n \<and> n \<le> 70 then Some (n - 55)
      else None)"

fun bytes_fromhex :: "string \<Rightarrow> error + bytes" where
  "bytes_fromhex [] = Inr []"
| "bytes_fromhex [c] = (if is_space c then Inr [] else Inl ValueError)"
| "bytes_fromhex (c # c' # cs) =
     (if is_space c then bytes_fromhex (c' # cs)
      else case hex_value c of
        None \<Rightarrow> Inl ValueError
      | Some hi \<Rightarrow>
         (case hex_value c' of
            None \<Rightarrow> Inl ValueError
          | Some lo \<Rightarrow>
              bind_err (bytes_fromhex cs) (\<lambda>bs. Inr (of_nat (hi * 16 + lo) # bs))))"

section \<open>Contract interfaces and signatures (configuration/types.py)\<close>

text \<open>
  An ABI entry is parsed JSON. An input (\<open>ABIComponent\<close>) has a name and a type, and
  \<open>components\<close> when it is a tuple; the key may be absent. Of an entry the code reads
  \<open>type\<close>, \<open>name\<close> and \<open>inputs\<close>, each of which it treats as possibly absent.
\<close>

datatype abi_input =
  AbiInput (input_name: string) (input_type: string) (input_components: "abi_input list option")

record abi_entry =
  entry_type :: "string option"
  entry_name :: "string option"
  entry_inputs :: "abi_input list option"

definition un_prefix_0x :: "string \<Rightarrow> string" where
  "un_prefix_0x to_unprefixed =
     (if take 2 to_unprefixed = ''0x'' then drop 2 to_unprefixed else to_unprefixed)"

text \<open>\<open>sep.join(xs)\<close> with the separator \<open>","\<close>.\<close>

fun comma_join :: "string list \<Rightarrow> string" where
  "comma_join [] = []"
| "comma_join [x] = x"
| "comma_join (x # y # ys) = x @ '','' @ comma_join (y # ys)"

text \<open>
  \<open>Web3.keccak(text=s)\<close> hashes the UTF-8 bytes of \<open>s\<close> and returns a \<open>HexBytes\<close>. The
  hash function is the parameter \<open>keccak\<close>. \<open>HexBytes.hex()\<close> is that of hexbytes 1.x,
  which web3 7 requires: the plain lowercase digits, as \<open>bytes.hex()\<close> gives them.
\<close>

definition encode_text :: "string \<Rightarrow> bytes" where
  "encode_text s = map (\<lambda>c. of_nat (of_char c)) s"

definition hexbytes_hex :: "bytes \<Rightarrow> string" where
  "hexbytes_hex h = bytes_hex h"

subsection \<open>event_signature\<close>

text \<open>
  The inner loop over the components of a tuple: \<open>index2\<close> is the position,
  \<open>params\<close> the string built so far. It appends the component's \<open>type\<close> string as it
  stands.
\<close>

fun components_loop :: "nat \<Rightarrow> abi_input list \<Rightarrow> string \<Rightarrow> string" where
  "components_loop index2 [] params = params"
| "components_loop index2 (tuple_component # rest) params =
     components_loop (Suc index2) rest
       ((if index2 > 0 then params @ '','' else params) @ input_type tuple_component)"

text \<open>The outer loop over the inputs; \<open>input["components"]\<close> raises when absent.\<close>

fun inputs_loop :: "nat \<Rightarrow> abi_input list \<Rightarrow> string \<Rightarrow> error + string" where
  "inputs_loop index [] params = Inr params"
| "inputs_loop index (input # rest) params =
     (let params = (if index > 0 then params @ '','' else params) in
      if input_type input = ''tuple[]'' then
        (case input_components input of
           None \<Rightarrow> Inl (KeyError ''components'')
         | Some components \<Rightarrow>
             inputs_loop (Suc index) rest
               (components_loop 0 components (params @ ''('') @ '')[]''))
      else if input_type input = ''tuple'' then
        (case input_components input of
           None \<Rightarrow> Inl (KeyError ''components'')
         | Some components \<Rightarrow>
             inputs_loop (Suc index) rest
               (components_loop 0 components (params @ ''('') @ '')''))
      else inputs_loop (Suc index) rest (params @ input_type input))"

text \<open>
  The string that \<open>event_signature\<close> hashes, \<open>name(params)\<close>. The source builds it in
  the argument of \<open>Web3.keccak\<close>; it has a name here so that theorems can speak of
  it. \<open>event_abi["inputs"]\<close> is read first, \<open>event_abi["name"]\<close> last.
\<close>

definition event_signature_text :: "abi_entry \<Rightarrow> error + string" where
  "event_signature_text event_abi =
     (case entry_inputs event_abi of
        None \<Rightarrow> Inl (KeyError ''inputs'')
      | Some inputs \<Rightarrow>
          bind_err (inputs_loop 0 inputs []) (\<lambda>params.
            (case entry_name event_abi of
               None \<Rightarrow> Inl (KeyError ''name'')
             | Some n \<Rightarrow> Inr (n @ ''('' @ params @ '')''))))"

definition event_signature :: "(bytes \<Rightarrow> bytes) \<Rightarrow> abi_entry \<Rightarrow> error + string" where
  "event_signature keccak event_abi =
     bind_err (event_signature_text event_abi) (\<lambda>sig_text.
       Inr (un_prefix_0x (hexbytes_hex (keccak (encode_text sig_text)))))"

subsection \<open>function_signature and the descriptors\<close>

definition function_signature :: "(bytes \<Rightarrow> bytes) \<Rightarrow> string \<Rightarrow> string" where
  "function_signature keccak function_name =
     take 8 (hexbytes_hex (keccak (encode_text function_name)))"

text \<open>
  \<open>Event\<close> and \<open>Function\<close>: the derived field \<open>signature\<close> is set by
  \<open>__attrs_post_init__\<close>, so construction fails when the derivation raises. The
  back-reference \<open>contract\<close> is a pointer to the owner and is left out.
\<close>

record Event =
  name :: string
  abi :: abi_entry
  signature :: string

record Function =
  name :: string
  abi :: abi_entry
  signature :: string

definition Event_init :: "(bytes \<Rightarrow> bytes) \<Rightarrow> string \<Rightarrow> abi_entry \<Rightarrow> error + Event" where
  "Event_init keccak n a =
     bind_err (event_signature keccak a) (\<lambda>sig.
       Inr \<lparr> Event.name = n, Event.abi = a, Event.signature = sig \<rparr>)"

text \<open>\<open>Function.to_full_name\<close>, on the descriptor's \<open>name\<close> and \<open>abi\<close>.\<close>

definition to_full_name :: "string \<Rightarrow> abi_entry \<Rightarrow> error + string" where
  "to_full_name n a =
     (case entry_inputs a of
        None \<Rightarrow> Inl AssertionError
      | Some inputs \<Rightarrow> Inr (n @ ''('' @ comma_join (map input_type inputs) @ '')''))"

definition Function_init ::
  "(bytes \<Rightarrow> bytes) \<Rightarrow> string \<Rightarrow> abi_entry \<Rightarrow> error + Function" where
  "Function_init keccak n a =
     bind_err (to_full_name n a) (\<lambda>full_name.
       Inr \<lparr> Function.name = n, Function.abi = a,
             Function.signature = function_signature keccak full_name \<rparr>)"

subsection \<open>Contract\<close>

text \<open>The field \<open>functions\<close> is written \<open>functions'\<close>: the plain word is reserved.\<close>

record Contract =
  name :: string
  address :: string
  abi :: "abi_entry list"
  events :: "string \<rightharpoonup> Event"
  functions' :: "string \<rightharpoonup> Function"

text \<open>The loop of \<open>Contract.__attrs_post_init__\<close> over the entries of the ABI.\<close>

fun entries_loop ::
  "(bytes \<Rightarrow> bytes) \<Rightarrow> abi_entry list \<Rightarrow> (string \<rightharpoonup> Event) \<Rightarrow> (string \<rightharpoonup> Function)
     \<Rightarrow> error + (string \<rightharpoonup> Event) \<times> (string \<rightharpoonup> Function)" where
  "entries_loop keccak [] evs fns = Inr (evs, fns)"
| "entries_loop keccak (entry # rest) evs fns =
     (case entry_type entry of
        None \<Rightarrow> Inl AssertionError
      | Some ty \<Rightarrow>
          if ty = ''event'' then
            (case entry_name entry of
               None \<Rightarrow> Inl AssertionError
             | Some n \<Rightarrow>
                 bind_err (Event_init keccak n entry) (\<lambda>e.
                   entries_loop keccak rest (evs(n \<mapsto> e)) fns))
          else if ty = ''function'' then
            (case entry_name entry of
               None \<Rightarrow> Inl AssertionError
             | Some n \<Rightarrow>
                 bind_err (Function_init keccak n entry) (\<lambda>f.
                   entries_loop keccak rest evs (fns(n \<mapsto> f))))
          else entries_loop keccak rest evs fns)"

text \<open>
  Constructing a \<open>Contract\<close>: the converter \<open>abi_from_file_location\<close> reads the
  artifact (the file system is the parameter \<open>load_abi\<close>, which may raise), then the
  two tables are built.
\<close>

definition Contract_init ::
  "(bytes \<Rightarrow> bytes) \<Rightarrow> (string \<Rightarrow> error + abi_entry list) \<Rightarrow> string \<Rightarrow> string \<Rightarrow> string
     \<Rightarrow> error + Contract" where
  "Contract_init keccak load_abi n addr file_location =
     bind_err (load_abi file_location) (\<lambda>entries.
     bind_err (entries_loop keccak entries Map.empty Map.empty) (\<lambda>(evs, fns).
       Inr \<lparr> Contract.name = n, Contract.address = addr, Contract.abi = entries,
             events = evs, functions' = fns \<rparr>))"

subsection \<open>Contracts.get_contracts\<close>

record Contracts =
  VoterRegistry :: Contract
  FlareSystemsCalculator :: Contract
  FlareSystemsManager :: Contract
  Relay :: Contract
  Submission :: Contract
  FdcHub :: Contract
  FastUpdater :: Contract

definition attr_names :: "string list" where
  "attr_names = [''VoterRegistry'', ''FlareSystemsCalculator'', ''FlareSystemsManager'',
                 ''Relay'', ''Submission'', ''FdcHub'', ''FastUpdater'']"

text \<open>
  The loop of \<open>get_contracts\<close>. The registry call
  \<open>registry.functions.getContractAddressByName(name).call()\<close> is the parameter
  \<open>registry\<close> and \<open>to_checksum_address\<close> (eth_utils) is a parameter too; both may
  raise. Nothing between the call and the construction looks at the address.
\<close>

fun contracts_loop ::
  "(bytes \<Rightarrow> bytes) \<Rightarrow> (string \<Rightarrow> error + abi_entry list) \<Rightarrow> (string \<Rightarrow> error + string)
     \<Rightarrow> (string \<Rightarrow> error + string) \<Rightarrow> string list \<Rightarrow> (string \<rightharpoonup> Contract)
     \<Rightarrow> error + (string \<rightharpoonup> Contract)" where
  "contracts_loop keccak load_abi registry to_checksum_address [] kwargs = Inr kwargs"
| "contracts_loop keccak load_abi registry to_checksum_address (n # rest) kwargs =
     bind_err (registry n) (\<lambda>returned.
     bind_err (to_checksum_address returned) (\<lambda>addr.
     bind_err (Contract_init keccak load_abi n addr
                 (''configuration/artifacts/'' @ n @ ''.json'')) (\<lambda>c.
       contracts_loop keccak load_abi registry to_checksum_address rest (kwargs(n \<mapsto> c)))))"

text \<open>\<open>cls(**kwargs)\<close>: a missing keyword argument is a \<open>TypeError\<close>.\<close>

definition kwarg :: "(string \<rightharpoonup> Contract) \<Rightarrow> string \<Rightarrow> error + Contract" where
  "kwarg kwargs k = (case kwargs k of None \<Rightarrow> Inl TypeError | Some c \<Rightarrow> Inr c)"

definition get_contracts ::
  "(bytes \<Rightarrow> bytes) \<Rightarrow> (string \<Rightarrow> error + abi_entry list) \<Rightarrow> (string \<Rightarrow> error + string)
     \<Rightarrow> (string \<Rightarrow> error + string) \<Rightarrow> error + Contracts" where
  "get_contracts keccak load_abi registry to_checksum_address =
     bind_err (contracts_loop keccak load_abi registry to_checksum_address attr_names Map.empty)
       (\<lambda>kwargs.
     bind_err (kwarg kwargs ''VoterRegistry'') (\<lambda>c1.
     bind_err (kwarg kwargs ''FlareSystemsCalculator'') (\<lambda>c2.
     bind_err (kwarg kwargs ''FlareSystemsManager'') (\<lambda>c3.
     bind_err (kwarg kwargs ''Relay'') (\<lambda>c4.
     bind_err (kwarg kwargs ''Submission'') (\<lambda>c5.
     bind_err (kwarg kwargs ''FdcHub'') (\<lambda>c6.
     bind_err (kwarg kwargs ''FastUpdater'') (\<lambda>c7.
       Inr \<lparr> VoterRegistry = c1, FlareSystemsCalculator = c2, FlareSystemsManager = c3,
             Relay = c4, Submission = c5, FdcHub = c6, FastUpdater = c7 \<rparr>))))))))"

section \<open>Typed protocol events (observer/types.py)\<close>

text \<open>
  The provider's log record (\<open>web3.types.EventData\<close>): the decoded arguments and the
  fields of the log the decoders read.
\<close>

record EventData =
  address :: string
  args :: "string \<rightharpoonup> py_value"
  blockNumber :: int
  logIndex :: int
  transactionHash :: bytes

subsection \<open>ProtocolMessageRelayed\<close>

record ProtocolMessageRelayed =
  protocol_id :: int
  voting_round_id :: int
  is_secure_random :: bool
  merkle_root :: string
  timestamp :: int

text \<open>
  \<open>to_message\<close>. The four operands of the concatenation are evaluated left to right.
  \<open>keccak\<close> (eth_utils), \<open>encode_defunct\<close> and \<open>_hash_eip191_message\<close> (eth_account)
  are library functions and are parameters here; the last one is written
  \<open>hash_eip191_message\<close>.
\<close>

definition to_message ::
  "(bytes \<Rightarrow> bytes) \<Rightarrow> (bytes \<Rightarrow> 'm) \<Rightarrow> ('m \<Rightarrow> bytes) \<Rightarrow> ProtocolMessageRelayed
     \<Rightarrow> error + bytes" where
  "to_message keccak encode_defunct hash_eip191_message m =
     bind_err (to_bytes (protocol_id m) 1) (\<lambda>b1.
     bind_err (to_bytes (voting_round_id m) 4) (\<lambda>b2.
     bind_err (to_bytes (if is_secure_random m then 1 else 0) 1) (\<lambda>b3.
     bind_err (bytes_fromhex (merkle_root m)) (\<lambda>b4.
       Inr (hash_eip191_message (encode_defunct (keccak (b1 @ b2 @ b3 @ b4))))))))"

subsection \<open>VoterRegistered\<close>

text \<open>
  The four address fields are annotated \<open>ChecksumAddress\<close>, but \<open>from_dict\<close> stores
  whatever the arguments hold and attrs checks nothing, so they are \<open>py_value\<close>s.
\<close>

record VoterRegistered =
  reward_epoch_id :: int
  voter :: py_value
  signing_policy_address :: py_value
  submit_address :: py_value
  submit_signatures_address :: py_value
  public_key :: string
  registration_weight :: int

text \<open>
  \<open>VoterRegistered.from_dict\<close>: the keyword arguments are evaluated in the order
  written, so the first missing key or failing conversion decides the exception.
\<close>

definition VoterRegistered_from_dict ::
  "(string \<Rightarrow> int option) \<Rightarrow> (string \<rightharpoonup> py_value) \<Rightarrow> error + VoterRegistered" where
  "VoterRegistered_from_dict int_literal d =
     bind_err (getitem d ''rewardEpochId'') (\<lambda>re.
     bind_err (py_int int_literal re) (\<lambda>reward_epoch.
     bind_err (getitem d ''voter'') (\<lambda>v.
     bind_err (getitem d ''signingPolicyAddress'') (\<lambda>spa.
     bind_err (getitem d ''submitAddress'') (\<lambda>sa.
     bind_err (getitem d ''submitSignaturesAddress'') (\<lambda>ssa.
     bind_err (getitem d ''publicKeyPart1'') (\<lambda>p1.
     bind_err (py_hex p1) (\<lambda>h1.
     bind_err (getitem d ''publicKeyPart2'') (\<lambda>p2.
     bind_err (py_hex p2) (\<lambda>h2.
     bind_err (getitem d ''registrationWeight'') (\<lambda>rw.
     bind_err (py_int int_literal rw) (\<lambda>weight.
       Inr \<lparr> reward_epoch_id = reward_epoch,
             voter = v,
             signing_policy_address = spa,
             submit_address = sa,
             submit_signatures_address = ssa,
             public_key = h1 @ h2,
             registration_weight = weight \<rparr>))))))))))))"

subsection \<open>AttestationRequest\<close>

text \<open>
  The voting epoch is the caller's (a \<open>VotingEpoch\<close> of py_flare_common), kept as a
  value of any type. \<open>data\<close> is stored unconverted.
\<close>

record 'e AttestationRequest =
  log_index :: int
  block :: int
  voting_epoch_id :: 'e
  data :: py_value

definition AttestationRequest_from_dict ::
  "EventData \<Rightarrow> 'e \<Rightarrow> error + 'e AttestationRequest" where
  "AttestationRequest_from_dict ev voting_epoch =
     bind_err (getitem (args ev) ''data'') (\<lambda>d.
       Inr \<lparr> log_index = logIndex ev,
             block = blockNumber ev,
             voting_epoch_id = voting_epoch,
             data = d \<rparr>)"

text \<open>
  The two properties hand a slice of \<open>data\<close> to the constructors \<open>AttestationType\<close>
  and \<open>AttestationSource\<close> of py_flare_common, which are the parameters
  \<open>mk_type\<close> and \<open>mk_source\<close>.
\<close>

definition attestation_type ::
  "(py_value \<Rightarrow> error + 't) \<Rightarrow> 'e AttestationRequest \<Rightarrow> error + 't" where
  "attestation_type mk_type r = bind_err (py_slice (data r) 0 32) mk_type"

definition source_id ::
  "(py_value \<Rightarrow> error + 's) \<Rightarrow> 'e AttestationRequest \<Rightarrow> error + 's" where
  "source_id mk_source r = bind_err (py_slice (data r) 32 64) mk_source"

subsection \<open>FastUpdateFeeds\<close>

record FastUpdateFeeds =
  voting_round_id :: int
  emitter_address :: string
  transaction_hash :: bytes
  feeds :: "int list"
  decimals :: "int list"

definition FastUpdateFeeds_from_dict ::
  "(string \<Rightarrow> int option) \<Rightarrow> EventData \<Rightarrow> error + FastUpdateFeeds" where
  "FastUpdateFeeds_from_dict int_literal ev =
     (let d = args ev; addr = EventData.address ev; tx_hash = transactionHash ev in
      bind_err (getitem d ''votingEpochId'') (\<lambda>ve.
      bind_err (py_int int_literal ve) (\<lambda>round_id.
      bind_err (getitem d ''feeds'') (\<lambda>fs.
      bind_err (py_iter fs) (\<lambda>fvs.
      bind_err (int_each int_literal fvs) (\<lambda>feed_ints.
      bind_err (getitem d ''decimals'') (\<lambda>ds.
      bind_err (py_iter ds) (\<lambda>dvs.
      bind_err (int_each int_literal dvs) (\<lambda>decimal_ints.
        Inr \<lparr> voting_round_id = round_id,
              emitter_address = addr,
              transaction_hash = tx_hash,
              feeds = feed_ints,
              decimals = decimal_ints \<rparr>)))))))))"

section \<open>The canonical form, stated\<close>

text \<open>
  What one input contributes to the parameter string of \<open>event_signature\<close>, written
  as a function of the input: the type string, or for \<open>tuple\<close> and \<open>tuple[]\<close> the
  parenthesized component types as they stand. The loops above are shown to compute
  the comma-joined contributions.
\<close>

definition component_types :: "abi_input \<Rightarrow> string list" where
  "component_types x = (case input_components x of None \<Rightarrow> [] | Some cs \<Rightarrow> map input_type cs)"

definition param_string :: "abi_input \<Rightarrow> string" where
  "param_string x =
     (if input_type x = ''tuple[]'' then ''('' @ comma_join (component_types x) @ '')[]''
      else if input_type x = ''tuple'' then ''('' @ comma_join (component_types x) @ '')''
      else input_type x)"

text \<open>
  Modelled from the spec: the recursive canonicalizer of section 4.1, which the
  source does not have. A primitive type contributes its type string, a \<open>tuple\<close>
  the parenthesized comma-joined canonical types of its components, a \<open>tuple[]\<close> the
  same followed by \<open>[]\<close>, at any depth. An absent \<open>components\<close> list is read as empty.
\<close>

fun spec_canonical_type :: "abi_input \<Rightarrow> string" where
  "spec_canonical_type (AbiInput n t comps) =
     (if t = ''tuple[]'' then
        ''('' @ comma_join (map spec_canonical_type (case comps of None \<Rightarrow> [] | Some cs \<Rightarrow> cs))
          @ '')[]''
      else if t = ''tuple'' then
        ''('' @ comma_join (map spec_canonical_type (case comps of None \<Rightarrow> [] | Some cs \<Rightarrow> cs))
          @ '')''
      else t)"

definition spec_signature_text :: "string \<Rightarrow> abi_input list \<Rightarrow> string" where
  "spec_signature_text n inputs =
     n @ ''('' @ comma_join (map spec_canonical_type inputs) @ '')''"


text \<open>
  A type string of a well-formed ABI is not empty and has no comma and no
  parenthesis. An input is well-formed when its type is such a string and, for the
  two tuple types, its components are present with such types; an event entry when
  it has a name and inputs, all well-formed.
\<close>

definition plain_type :: "string \<Rightarrow> bool" where
  "plain_type t = (t \<noteq> [] \<and> list_all (\<lambda>c. c \<noteq> CHR '','' \<and> c \<noteq> CHR ''('' \<and> c \<noteq> CHR '')'') t)"

definition valid_input :: "abi_input \<Rightarrow> bool" where
  "valid_input x =
     (plain_type (input_type x) \<and>
      (if input_type x = ''tuple[]'' \<or> input_type x = ''tuple''
       then (case input_components x of
               None \<Rightarrow> False
             | Some cs \<Rightarrow> list_all (\<lambda>c. plain_type (input_type c)) cs)
       else True))"

definition valid_event :: "abi_entry \<Rightarrow> bool" where
  "valid_event a =
     (entry_name a \<noteq> None \<and>
      (case entry_inputs a of None \<Rightarrow> False | Some xs \<Rightarrow> list_all valid_input xs))"



section \<open>Resolution of one name, stated\<close>

text \<open>
  The body of the loop of \<open>get_contracts\<close> as a function of the name: the registry
  call, the checksum conversion and the construction of the \<open>Contract\<close>.
\<close>

definition resolve ::
  "(bytes \<Rightarrow> bytes) \<Rightarrow> (string \<Rightarrow> error + abi_entry list) \<Rightarrow> (string \<Rightarrow> error + string)
     \<Rightarrow> (string \<Rightarrow> error + string) \<Rightarrow> string \<Rightarrow> error + Contract" where
  "resolve keccak load_abi registry to_checksum_address n =
     bind_err (registry n) (\<lambda>returned.
     bind_err (to_checksum_address returned) (\<lambda>addr.
       Contract_init keccak load_abi n addr (''configuration/artifacts/'' @ n @ ''.json'')))"

section \<open>Sample inputs\<close>

text \<open>A decoded \<open>VoterRegistered\<close> log whose four address arguments are the string \<open>a\<close>.\<close>

definition sample_voter_args :: "string \<Rightarrow> (string \<rightharpoonup> py_value)" where
  "sample_voter_args a =
     [''rewardEpochId'' \<mapsto> PyInt 5,
      ''voter'' \<mapsto> PyStr a,
      ''signingPolicyAddress'' \<mapsto> PyStr a,
      ''submitAddress'' \<mapsto> PyStr a,
      ''submitSignaturesAddress'' \<mapsto> PyStr a,
      ''publicKeyPart1'' \<mapsto> PyBytes [0x04, 0xab],
      ''publicKeyPart2'' \<mapsto> PyBytes [0xcd],
      ''registrationWeight'' \<mapsto> PyInt 1000]"

text \<open>
  The registry's address as the source writes it (checksummed), and the same address
  in lowercase.
\<close>

definition sample_address_mixed :: string where
  "sample_address_mixed = ''0xaD67FE66660Fb8dFE9d6b1b4240d8650e30F6019''"

definition sample_address_lower :: string where
  "sample_address_lower = ''0xad67fe66660fb8dfe9d6b1b4240d8650e30f6019''"

text \<open>A log record with the decoded arguments \<open>a\<close>.\<close>

definition sample_event :: "(string \<rightharpoonup> py_value) \<Rightarrow> EventData" where
  "sample_event a =
     \<lparr> EventData.address = ''0xaD67FE66660Fb8dFE9d6b1b4240d8650e30F6019'',
       args = a, blockNumber = 100, logIndex = 7, transactionHash = [0x12, 0x34] \<rparr>"

text \<open>
  Stand-ins for the library functions where an example needs them: a function from
  byte strings to 32 bytes in the place of the hash, and a relayed message with a
  given protocol id and merkle root (round 123456, secure random).
\<close>

definition sample_hash :: "bytes \<Rightarrow> bytes" where
  "sample_hash b = replicate 32 (of_nat (length b))"

definition sample_message :: "int \<Rightarrow> string \<Rightarrow> ProtocolMessageRelayed" where
  "sample_message p root =
     \<lparr> protocol_id = p, voting_round_id = 123456, is_secure_random = True,
       merkle_root = root, timestamp = 1700000000 \<rparr>"

definition zero_root :: string where
  "zero_root = replicate 64 CHR ''0''"

text \<open>
  An event whose one parameter is a \<open>tuple[]\<close> with a nested \<open>tuple\<close> component, and
  two entries of a \<open>Transfer\<close> event that differ in the order of the two address
  parameters.
\<close>

definition nested_event :: abi_entry where
  "nested_event =
     \<lparr> entry_type = Some ''event'', entry_name = Some ''E'',
       entry_inputs = Some
         [AbiInput ''items'' ''tuple[]''
            (Some [AbiInput ''pair'' ''tuple''
                     (Some [AbiInput ''amount'' ''uint256'' None,
                            AbiInput ''owner'' ''address'' None]),
                   AbiInput ''flag'' ''bool'' None])] \<rparr>"

definition transfer_event :: "string \<Rightarrow> string \<Rightarrow> abi_entry" where
  "transfer_event first second =
     \<lparr> entry_type = Some ''event'', entry_name = Some ''Transfer'',
       entry_inputs = Some
         [AbiInput first ''address'' None, AbiInput second ''address'' None,
          AbiInput ''value'' ''uint256'' None] \<rparr>"

text \<open>A function entry \<open>submit(uint32,bytes)\<close>.\<close>

definition submit_function :: abi_entry where
  "submit_function =
     \<lparr> entry_type = Some ''function'', entry_name = Some ''submit'',
       entry_inputs = Some
         [AbiInput ''round'' ''uint32'' None, AbiInput ''payload'' ''bytes'' None] \<rparr>"

text \<open>
  A constructor that accepts a value of exactly 32 bytes and raises \<open>ValueError\<close> on
  anything else, in the place of \<open>AttestationType\<close> and \<open>AttestationSource\<close>.
\<close>

definition bytes32 :: "py_value \<Rightarrow> error + bytes" where
  "bytes32 v =
     (case v of
        PyBytes s \<Rightarrow> if length s = 32 then Inr s else Inl ValueError
      | _ \<Rightarrow> Inl ValueError)"


text \<open>
  A registry that knows every name but \<open>Relay\<close>, for which it returns the zero
  address as the contract on chain does for a name it does not know; one that knows
  every name; and one whose call for \<open>FdcHub\<close> raises. The checksum conversion is
  given on the two addresses used, which are in checksummed form already, and every
  artifact holds the same small ABI.
\<close>

definition zero_address :: string where
  "zero_address = ''0x0000000000000000000000000000000000000000''"

definition registry_without_relay :: "string \<Rightarrow> error + string" where
  "registry_without_relay n =
     Inr (if n = ''Relay'' then zero_address else sample_address_mixed)"

definition registry_complete :: "string \<Rightarrow> error + string" where
  "registry_complete n = Inr sample_address_mixed"

definition registry_failing :: "string \<Rightarrow> error + string" where
  "registry_failing n = (if n = ''FdcHub'' then Inl OSError else Inr sample_address_mixed)"

definition sample_checksum :: "string \<Rightarrow> error + string" where
  "sample_checksum a =
     (if a = zero_address \<or> a = sample_address_mixed then Inr a else Inl ValueError)"

definition sample_artifacts :: "string \<Rightarrow> error + abi_entry list" where
  "sample_artifacts file_location = Inr [submit_function, transfer_event ''from'' ''to'']"


section \<open>Basic facts\<close>

lemma bind_err_Inr [simp]: "bind_err (Inr x) f = f x"
  by (simp add: bind_err_def)

lemma bind_err_Inl [simp]: "bind_err (Inl e) f = Inl e"
  by (simp add: bind_err_def)

lemma bind_err_eq_Inr: "bind_err m f = Inr y \<longleftrightarrow> (\<exists>x. m = Inr x \<and> f x = Inr y)"
  by (cases m) simp_all

lemma getitem_eq_Inr: "getitem d k = Inr v \<longleftrightarrow> d k = Some v"
  by (simp add: getitem_def split: option.splits)

lemma getitem_Some [simp]: "d k = Some v \<Longrightarrow> getitem d k = Inr v"
  by (simp add: getitem_def)

lemma getitem_None [simp]: "d k = None \<Longrightarrow> getitem d k = Inl (KeyError k)"
  by (simp add: getitem_def)

lemma py_hex_eq_Inr: "py_hex v = Inr s \<longleftrightarrow> (\<exists>bs. v = PyBytes bs \<and> s = bytes_hex bs)"
  by (cases v) auto

lemma VoterRegistered_from_dict_fields:
  assumes "VoterRegistered_from_dict il d = Inr v"
  shows "d ''voter'' = Some (voter v)"
    and "d ''signingPolicyAddress'' = Some (signing_policy_address v)"
    and "d ''submitAddress'' = Some (submit_address v)"
    and "d ''submitSignaturesAddress'' = Some (submit_signatures_address v)"
    and "\<exists>p1 p2. d ''publicKeyPart1'' = Some (PyBytes p1) \<and> d ''publicKeyPart2'' = Some (PyBytes p2)
           \<and> public_key v = bytes_hex p1 @ bytes_hex p2"
  using assms
  by (auto simp: VoterRegistered_from_dict_def bind_err_eq_Inr getitem_eq_Inr py_hex_eq_Inr)

lemma VoterRegistered_from_dict_ints:
  assumes "d ''rewardEpochId'' = Some (PyInt e)" "d ''voter'' = Some a1"
    "d ''signingPolicyAddress'' = Some a2" "d ''submitAddress'' = Some a3"
    "d ''submitSignaturesAddress'' = Some a4" "d ''publicKeyPart1'' = Some (PyBytes part1)"
    "d ''publicKeyPart2'' = Some (PyBytes part2)" "d ''registrationWeight'' = Some (PyInt w)"
  shows "VoterRegistered_from_dict il d =
    Inr \<lparr> reward_epoch_id = e, voter = a1, signing_policy_address = a2, submit_address = a3,
          submit_signatures_address = a4, public_key = bytes_hex part1 @ bytes_hex part2,
          registration_weight = w \<rparr>"
  using assms by (simp add: VoterRegistered_from_dict_def)

lemma sample_voter_args_simps:
  "sample_voter_args a ''rewardEpochId'' = Some (PyInt 5)"
  "sample_voter_args a ''voter'' = Some (PyStr a)"
  "sample_voter_args a ''signingPolicyAddress'' = Some (PyStr a)"
  "sample_voter_args a ''submitAddress'' = Some (PyStr a)"
  "sample_voter_args a ''submitSignaturesAddress'' = Some (PyStr a)"
  "sample_voter_args a ''publicKeyPart1'' = Some (PyBytes [0x04, 0xab])"
  "sample_voter_args a ''publicKeyPart2'' = Some (PyBytes [0xcd])"
  "sample_voter_args a ''registrationWeight'' = Some (PyInt 1000)"
  by (simp_all add: sample_voter_args_def)

lemma sample_voter_decoded:
  "VoterRegistered_from_dict il (sample_voter_args a) =
     Inr \<lparr> reward_epoch_id = 5, voter = PyStr a, signing_policy_address = PyStr a,
           submit_address = PyStr a, submit_signatures_address = PyStr a,
           public_key = bytes_hex [0x04, 0xab] @ bytes_hex [0xcd],
           registration_weight = 1000 \<rparr>"
  by (rule VoterRegistered_from_dict_ints) (rule sample_voter_args_simps)+

lemma bytes_hex_sample: "bytes_hex [0x04, 0xab] @ bytes_hex [0xcd] = ''04abcd''"
  by (simp add: bytes_hex_def byte_hex_def hex_digit_def)

lemma int_each_PyInt [simp]: "int_each il (map PyInt ns) = Inr ns"
  by (induction ns) simp_all

lemma big_endian_1: "big_endian 1 n = [word_of_int n]"
  by simp
lemma big_endian_4:
  "big_endian 4 n = [word_of_int (n div 16777216), word_of_int (n div 65536), word_of_int (n div 256), word_of_int n]"
proof -
  have "big_endian (Suc (Suc (Suc (Suc 0)))) n
      = [word_of_int (n div 256 div 256 div 256), word_of_int (n div 256 div 256), word_of_int (n div 256), word_of_int n]"
    by simp
  moreover have "n div 256 div 256 = n div 65536" "n div 256 div 256 div 256 = n div 16777216"
    by (simp_all add: zdiv_zmult2_eq[symmetric])
  ultimately show ?thesis by (simp add: numeral_eq_Suc)
qed

lemma length_big_endian [simp]: "length (big_endian k n) = k"
  by (induction k arbitrary: n) simp_all

lemma bytes_fromhex_error: "bytes_fromhex s = Inl e \<Longrightarrow> e = ValueError"
  by (induction s arbitrary: e rule: bytes_fromhex.induct)
     (auto simp: bind_err_def split: if_splits option.splits sum.splits)

lemma to_bytes_1:
  "to_bytes n 1 = (if n < 0 \<or> 256 \<le> n then Inl OverflowError else Inr [word_of_int n])"
  by (simp add: to_bytes_def)

lemma to_bytes_4:
  "to_bytes n 4 = (if n < 0 \<or> 4294967296 \<le> n then Inl OverflowError
     else Inr [word_of_int (n div 16777216), word_of_int (n div 65536),
               word_of_int (n div 256), word_of_int n])"
  by (simp add: to_bytes_def big_endian_4)

lemma to_bytes_bool: "to_bytes (if b then 1 else 0) 1 = Inr [if b then 1 else 0]"
  by (simp add: to_bytes_def)

lemma to_message_eq:
  "to_message keccak enc h m =
     (if ProtocolMessageRelayed.protocol_id m < 0 \<or> 256 \<le> protocol_id m \<or>
         ProtocolMessageRelayed.voting_round_id m < 0 \<or>
         4294967296 \<le> ProtocolMessageRelayed.voting_round_id m
      then Inl OverflowError
      else case bytes_fromhex (merkle_root m) of
             Inl e \<Rightarrow> Inl ValueError
           | Inr root \<Rightarrow>
               Inr (h (enc (keccak
                 ([word_of_int (protocol_id m)] @
                  [word_of_int (ProtocolMessageRelayed.voting_round_id m div 16777216),
                   word_of_int (ProtocolMessageRelayed.voting_round_id m div 65536),
                   word_of_int (ProtocolMessageRelayed.voting_round_id m div 256),
                   word_of_int (ProtocolMessageRelayed.voting_round_id m)] @
                  [if is_secure_random m then 1 else 0] @ root)))))"
proof (cases "bytes_fromhex (merkle_root m)")
  case (Inl e)
  then have "e = ValueError" by (rule bytes_fromhex_error)
  with Inl show ?thesis
    unfolding to_message_def to_bytes_1 to_bytes_4 to_bytes_bool by simp
next
  case (Inr root)
  then show ?thesis
    unfolding to_message_def to_bytes_1 to_bytes_4 to_bytes_bool by simp
qed

lemma bytes_fromhex_replicate_zero:
  "bytes_fromhex (replicate (2 * n) CHR ''0'') = Inr (replicate n 0)"
  by (induction n) (simp_all add: is_space_def hex_value_def)

lemma zero_root_bytes: "bytes_fromhex zero_root = Inr (replicate 32 0)"
  using bytes_fromhex_replicate_zero[of 32] by (simp add: zero_root_def)

lemma big_endian_value:
  assumes "0 \<le> v" "v < 4294967296"
  shows "uint (word_of_int (v div 16777216) :: byte) * 16777216 +
         uint (word_of_int (v div 65536) :: byte) * 65536 +
         uint (word_of_int (v div 256) :: byte) * 256 +
         uint (word_of_int v :: byte) = v"
proof -
  have m: "uint (word_of_int x :: byte) = x mod 256" for x
    by (simp add: uint_word_of_int take_bit_eq_mod)
  have a: "v = (v div 256) * 256 + v mod 256" by simp
  have b: "v div 256 = (v div 65536) * 256 + v div 256 mod 256"
    using div_mult_mod_eq[of "v div 256" 256] by (simp add: zdiv_zmult2_eq[symmetric])
  have c: "v div 65536 = (v div 16777216) * 256 + v div 65536 mod 256"
    using div_mult_mod_eq[of "v div 65536" 256] by (simp add: zdiv_zmult2_eq[symmetric])
  have d: "v div 16777216 mod 256 = v div 16777216"
    using assms by simp
  show ?thesis unfolding m using a b c d by linarith
qed

lemma sample_round_bytes: "(482 :: byte) = 226" "(123456 :: byte) = 64"
  by simp_all

lemma byte_value:
  assumes "0 \<le> v" "v < 256"
  shows "uint (word_of_int v :: byte) = v"
  using assms by (simp add: uint_word_of_int take_bit_eq_mod)

lemma comma_join_Cons: "comma_join (x # xs) = x @ concat (map (\<lambda>y. '','' @ y) xs)"
  by (induction xs arbitrary: x) simp_all

lemma components_loop_Suc:
  "components_loop (Suc i) cs p = p @ concat (map (\<lambda>y. '','' @ y) (map input_type cs))"
  by (induction cs arbitrary: i p) simp_all

lemma components_loop_0:
  "components_loop 0 cs p = p @ comma_join (map input_type cs)"
  by (cases cs) (simp_all add: components_loop_Suc comma_join_Cons)

lemma length_byte_hex [simp]: "length (byte_hex b) = 2"
  by (simp add: byte_hex_def)

lemma length_bytes_hex [simp]: "length (bytes_hex bs) = 2 * length bs"
  by (induction bs) (simp_all add: bytes_hex_def)

lemma bytes_hex_Nil: "bytes_hex [] = []"
  by (simp add: bytes_hex_def)

lemma bytes_hex_Cons: "bytes_hex (b # bs) = byte_hex b @ bytes_hex bs"
  by (simp add: bytes_hex_def)

lemma take_bytes_hex: "take (2 * n) (bytes_hex bs) = bytes_hex (take n bs)"
proof (induction bs arbitrary: n)
  case Nil
  then show ?case by (simp add: bytes_hex_Nil)
next
  case (Cons b bs)
  show ?case
  proof (cases n)
    case 0
    then show ?thesis by (simp add: bytes_hex_Nil)
  next
    case (Suc k)
    then show ?thesis using Cons.IH[of k] by (simp add: bytes_hex_Cons)
  qed
qed

lemma hex_digit_in: "hex_digit n \<in> set ''0123456789abcdef''"
proof -
  have "n mod 16 < length ''0123456789abcdef''" by simp
  then show ?thesis unfolding hex_digit_def by (rule nth_mem)
qed

lemma bytes_hex_digits: "set (bytes_hex bs) \<subseteq> set ''0123456789abcdef''"
proof (induction bs)
  case Nil
  then show ?case by (simp add: bytes_hex_Nil)
next
  case (Cons b bs)
  have "set (byte_hex b) \<subseteq> set ''0123456789abcdef''"
    using hex_digit_in by (simp add: byte_hex_def)
  with Cons show ?case by (simp add: bytes_hex_Cons)
qed

lemma function_signature_bytes:
  "function_signature keccak full_name = bytes_hex (take 4 (keccak (encode_text full_name)))"
  using take_bytes_hex[of 4 "keccak (encode_text full_name)"]
  by (simp add: function_signature_def hexbytes_hex_def)

lemma comma_join_no_space:
  "\<forall>t\<in>set ts. CHR '' '' \<notin> set t \<Longrightarrow> CHR '' '' \<notin> set (comma_join ts)"
  by (induction ts rule: comma_join.induct) simp_all

lemma sample_hash_length: "\<forall>b. length (sample_hash b) = 32"
  by (simp add: sample_hash_def)

section \<open>Facts about the canonical form\<close>

lemma inputs_loop_Suc:
  "list_all valid_input xs \<Longrightarrow>
     inputs_loop (Suc i) xs p = Inr (p @ concat (map (\<lambda>y. '','' @ y) (map param_string xs)))"
proof (induction xs arbitrary: i p)
  case Nil
  then show ?case by simp
next
  case (Cons x xs)
  then have v: "valid_input x" and vs: "list_all valid_input xs" by simp_all
  show ?case
  proof (cases "input_type x = ''tuple[]'' \<or> input_type x = ''tuple''")
    case True
    with v obtain cs where cs: "input_components x = Some cs"
      by (auto simp: valid_input_def split: option.splits)
    from True cs show ?thesis
      by (auto simp: Cons.IH[OF vs] components_loop_0 param_string_def component_types_def)
  next
    case False
    then show ?thesis
      by (simp add: Cons.IH[OF vs] param_string_def)
  qed
qed

lemma inputs_loop_0:
  assumes "list_all valid_input xs"
  shows "inputs_loop 0 xs [] = Inr (comma_join (map param_string xs))"
proof (cases xs)
  case Nil
  then show ?thesis by simp
next
  case (Cons x xs')
  with assms have v: "valid_input x" and vs: "list_all valid_input xs'" by simp_all
  show ?thesis
  proof (cases "input_type x = ''tuple[]'' \<or> input_type x = ''tuple''")
    case True
    with v obtain cs where cs: "input_components x = Some cs"
      by (auto simp: valid_input_def split: option.splits)
    from True cs show ?thesis unfolding Cons
      by (auto simp: inputs_loop_Suc[OF vs] components_loop_0 param_string_def
          component_types_def comma_join_Cons)
  next
    case False
    then show ?thesis unfolding Cons
      by (simp add: inputs_loop_Suc[OF vs] param_string_def comma_join_Cons)
  qed
qed

lemma event_signature_text_valid:
  assumes "valid_event a"
  shows "\<exists>n xs. entry_name a = Some n \<and> entry_inputs a = Some xs \<and> list_all valid_input xs \<and>
           event_signature_text a = Inr (n @ ''('' @ comma_join (map param_string xs) @ '')'')"
proof -
  from assms obtain n xs where "entry_name a = Some n" "entry_inputs a = Some xs"
    "list_all valid_input xs"
    by (auto simp: valid_event_def split: option.splits)
  then show ?thesis
    by (simp add: event_signature_text_def inputs_loop_0)
qed
























section \<open>Facts about the resolution of contracts\<close>

lemma bind_err_assoc:
  "bind_err (bind_err m f) g = bind_err m (\<lambda>x. bind_err (f x) g)"
  by (cases m) simp_all

lemma contracts_loop_Cons:
  "contracts_loop k l reg cs (n # rest) kwargs =
     bind_err (resolve k l reg cs n) (\<lambda>c. contracts_loop k l reg cs rest (kwargs(n \<mapsto> c)))"
  by (simp add: resolve_def bind_err_assoc)

lemma get_contracts_chain:
  "get_contracts k l reg cs =
     bind_err (resolve k l reg cs ''VoterRegistry'') (\<lambda>c1.
     bind_err (resolve k l reg cs ''FlareSystemsCalculator'') (\<lambda>c2.
     bind_err (resolve k l reg cs ''FlareSystemsManager'') (\<lambda>c3.
     bind_err (resolve k l reg cs ''Relay'') (\<lambda>c4.
     bind_err (resolve k l reg cs ''Submission'') (\<lambda>c5.
     bind_err (resolve k l reg cs ''FdcHub'') (\<lambda>c6.
     bind_err (resolve k l reg cs ''FastUpdater'') (\<lambda>c7.
       Inr \<lparr> VoterRegistry = c1, FlareSystemsCalculator = c2, FlareSystemsManager = c3,
             Relay = c4, Submission = c5, FdcHub = c6, FastUpdater = c7 \<rparr>)))))))"
  unfolding get_contracts_def attr_names_def contracts_loop_Cons contracts_loop.simps(1)
  by (simp add: bind_err_assoc kwarg_def)

lemma Contract_init_fields:
  "Contract_init k l n addr loc = Inr c \<Longrightarrow> Contract.name c = n \<and> Contract.address c = addr"
  by (auto simp: Contract_init_def bind_err_eq_Inr)

lemma resolve_fields:
  assumes "resolve k l reg cs n = Inr c"
  shows "Contract.name c = n \<and> (\<exists>returned. reg n = Inr returned \<and> cs returned = Inr (Contract.address c))"
proof -
  from assms obtain returned addr where r: "reg n = Inr returned" and a: "cs returned = Inr addr"
    and c: "Contract_init k l n addr (''configuration/artifacts/'' @ n @ ''.json'') = Inr c"
    by (auto simp: resolve_def bind_err_eq_Inr)
  from Contract_init_fields[OF c] r a show ?thesis by simp
qed

lemma sample_abi_tables:
  "\<exists>evs fns. entries_loop k [submit_function, transfer_event ''from'' ''to''] Map.empty Map.empty
      = Inr (evs, fns)"
  by (simp add: submit_function_def transfer_event_def Function_init_def to_full_name_def
      Event_init_def event_signature_def event_signature_text_def)

lemma sample_Contract_init:
  "\<exists>c. Contract_init k sample_artifacts n addr loc = Inr c \<and> Contract.name c = n \<and>
        Contract.address c = addr"
proof -
  obtain evs fns where
    "entries_loop k [submit_function, transfer_event ''from'' ''to''] Map.empty Map.empty
      = Inr (evs, fns)"
    using sample_abi_tables by blast
  then show ?thesis
    by (simp add: Contract_init_def sample_artifacts_def)
qed

lemma sample_resolve:
  assumes "reg n = Inr a" and "a = zero_address \<or> a = sample_address_mixed"
  shows "\<exists>c. resolve k sample_artifacts reg sample_checksum n = Inr c \<and> Contract.name c = n \<and>
           Contract.address c = a"
proof -
  from assms(2) have "sample_checksum a = Inr a" by (auto simp: sample_checksum_def)
  with assms(1) show ?thesis
    using sample_Contract_init[of k n a "''configuration/artifacts/'' @ n @ ''.json''"]
    by (simp add: resolve_def)
qed

section \<open>Typed event decoding: the claims\<close>

text \<open>
  C9. For a raw \<open>VoterRegistered\<close> log whose arguments carry the two public-key byte
  parts, every value that \<open>from_dict\<close> returns has as \<open>public_key\<close> the hex encoding
  of \<open>publicKeyPart1\<close> immediately followed by the hex encoding of \<open>publicKeyPart2\<close>;
  and it does return a value when the other six arguments are present and the two
  integer arguments are ints.
\<close>

theorem VoterRegistered_public_key:
  assumes "d ''publicKeyPart1'' = Some (PyBytes part1)"
    and "d ''publicKeyPart2'' = Some (PyBytes part2)"
  shows "(\<forall>v. VoterRegistered_from_dict il d = Inr v \<longrightarrow>
            public_key v = bytes_hex part1 @ bytes_hex part2) \<and>
         (d ''rewardEpochId'' = Some (PyInt e) \<and> d ''voter'' = Some a1 \<and>
          d ''signingPolicyAddress'' = Some a2 \<and> d ''submitAddress'' = Some a3 \<and>
          d ''submitSignaturesAddress'' = Some a4 \<and> d ''registrationWeight'' = Some (PyInt w) \<longrightarrow>
            (\<exists>v. VoterRegistered_from_dict il d = Inr v))"
proof (intro conjI allI impI)
  fix v assume "VoterRegistered_from_dict il d = Inr v"
  from VoterRegistered_from_dict_fields(5)[OF this] assms
  show "public_key v = bytes_hex part1 @ bytes_hex part2" by auto
next
  assume "d ''rewardEpochId'' = Some (PyInt e) \<and> d ''voter'' = Some a1 \<and>
          d ''signingPolicyAddress'' = Some a2 \<and> d ''submitAddress'' = Some a3 \<and>
          d ''submitSignaturesAddress'' = Some a4 \<and> d ''registrationWeight'' = Some (PyInt w)"
  with assms show "\<exists>v. VoterRegistered_from_dict il d = Inr v"
    by (simp add: VoterRegistered_from_dict_ints)
qed

theorem VoterRegistered_public_key_witness:
  "(\<exists>v. VoterRegistered_from_dict (\<lambda>s. None) (sample_voter_args ''0xaD67FE66660Fb8dFE9d6b1b4240d8650e30F6019'') = Inr v
      \<and> public_key v = ''04abcd'')"
proof -
  let ?d = "sample_voter_args ''0xaD67FE66660Fb8dFE9d6b1b4240d8650e30F6019''"
  obtain v where v: "VoterRegistered_from_dict (\<lambda>s. None) ?d = Inr v"
    using sample_voter_decoded by blast
  from VoterRegistered_public_key[of ?d "[0x04, 0xab]" "[0xcd]" "\<lambda>s. None", OF sample_voter_args_simps(6) sample_voter_args_simps(7)] v
  have "public_key v = bytes_hex [0x04, 0xab] @ bytes_hex [0xcd]" by blast
  with v show ?thesis by (simp add: bytes_hex_sample)
qed

text \<open>
  C7. The claim is that decoding normalizes the four address fields to checksummed
  form whatever the casing of the input. \<open>from_dict\<close> copies them: the lowercase and
  the mixed-case spelling of one address decode to two different \<open>voter\<close> fields,
  each the string that was supplied, so at most one of them is the checksummed form.
\<close>

theorem VoterRegistered_casing_counterexample:
  "map_sum id voter
     (VoterRegistered_from_dict (\<lambda>s. None) (sample_voter_args sample_address_lower))
     = Inr (PyStr ''0xad67fe66660fb8dfe9d6b1b4240d8650e30f6019'') \<and>
   map_sum id voter
     (VoterRegistered_from_dict (\<lambda>s. None) (sample_voter_args sample_address_mixed))
     = Inr (PyStr ''0xaD67FE66660Fb8dFE9d6b1b4240d8650e30F6019'') \<and>
   map_sum id voter
     (VoterRegistered_from_dict (\<lambda>s. None) (sample_voter_args sample_address_lower))
     \<noteq> map_sum id voter
         (VoterRegistered_from_dict (\<lambda>s. None) (sample_voter_args sample_address_mixed))"
  by (simp add: sample_voter_decoded sample_address_lower_def sample_address_mixed_def)

text \<open>
  C7, amended. Every value \<open>VoterRegistered.from_dict\<close> returns carries in \<open>voter\<close>,
  \<open>signing_policy_address\<close>, \<open>submit_address\<close> and \<open>submit_signatures_address\<close> exactly
  the values of the raw arguments \<open>voter\<close>, \<open>signingPolicyAddress\<close>, \<open>submitAddress\<close>
  and \<open>submitSignaturesAddress\<close>, unchanged: they are checksummed when the provider
  supplied them so.
\<close>

theorem VoterRegistered_addresses_verbatim:
  "VoterRegistered_from_dict il d = Inr v \<Longrightarrow>
     d ''voter'' = Some (voter v) \<and>
     d ''signingPolicyAddress'' = Some (signing_policy_address v) \<and>
     d ''submitAddress'' = Some (submit_address v) \<and>
     d ''submitSignaturesAddress'' = Some (submit_signatures_address v)"
  by (simp add: VoterRegistered_from_dict_fields)

theorem VoterRegistered_addresses_verbatim_witness:
  "VoterRegistered_from_dict (\<lambda>s. None) (sample_voter_args sample_address_lower) =
     Inr \<lparr> reward_epoch_id = 5, voter = PyStr sample_address_lower,
           signing_policy_address = PyStr sample_address_lower,
           submit_address = PyStr sample_address_lower,
           submit_signatures_address = PyStr sample_address_lower,
           public_key = ''04abcd'', registration_weight = 1000 \<rparr> \<and>
   sample_voter_args sample_address_lower ''voter'' = Some (PyStr sample_address_lower) \<and>
   sample_voter_args sample_address_lower ''signingPolicyAddress''
     = Some (PyStr sample_address_lower) \<and>
   sample_voter_args sample_address_lower ''submitAddress''
     = Some (PyStr sample_address_lower) \<and>
   sample_voter_args sample_address_lower ''submitSignaturesAddress''
     = Some (PyStr sample_address_lower)"
proof -
  have dec: "VoterRegistered_from_dict (\<lambda>s. None) (sample_voter_args sample_address_lower) =
     Inr \<lparr> reward_epoch_id = 5, voter = PyStr sample_address_lower,
           signing_policy_address = PyStr sample_address_lower,
           submit_address = PyStr sample_address_lower,
           submit_signatures_address = PyStr sample_address_lower,
           public_key = ''04abcd'', registration_weight = 1000 \<rparr>"
    by (simp add: sample_voter_decoded bytes_hex_sample)
  from VoterRegistered_addresses_verbatim[OF dec] dec show ?thesis by simp
qed

text \<open>
  C10. \<open>FastUpdateFeeds.from_dict\<close> reads \<open>voting_round_id\<close> from the argument
  \<open>votingEpochId\<close>: without that key decoding fails with \<open>KeyError\<close> on it, whatever
  else the arguments hold (a \<open>votingRoundId\<close> included); every value returned has
  \<open>voting_round_id = int(args["votingEpochId"])\<close>; and with an int under that key and
  lists of ints under \<open>feeds\<close> and \<open>decimals\<close> a value is returned.
\<close>

theorem FastUpdateFeeds_voting_round_id:
  "(args ev ''votingEpochId'' = None \<longrightarrow>
      FastUpdateFeeds_from_dict il ev = Inl (KeyError ''votingEpochId'')) \<and>
   (\<forall>v. FastUpdateFeeds_from_dict il ev = Inr v \<longrightarrow>
      (\<exists>x. args ev ''votingEpochId'' = Some x \<and> py_int il x = Inr (voting_round_id v))) \<and>
   (args ev ''votingEpochId'' = Some (PyInt n) \<and>
    args ev ''feeds'' = Some (PyList (map PyInt fs)) \<and>
    args ev ''decimals'' = Some (PyList (map PyInt ds)) \<longrightarrow>
      FastUpdateFeeds_from_dict il ev =
        Inr \<lparr> voting_round_id = n, emitter_address = EventData.address ev,
              transaction_hash = transactionHash ev, feeds = fs, decimals = ds \<rparr>)"
proof (intro conjI allI impI)
  assume "args ev ''votingEpochId'' = None"
  then show "FastUpdateFeeds_from_dict il ev = Inl (KeyError ''votingEpochId'')"
    by (simp add: FastUpdateFeeds_from_dict_def)
next
  fix v assume "FastUpdateFeeds_from_dict il ev = Inr v"
  then show "\<exists>x. args ev ''votingEpochId'' = Some x \<and> py_int il x = Inr (voting_round_id v)"
    by (auto simp: FastUpdateFeeds_from_dict_def Let_def bind_err_eq_Inr getitem_eq_Inr)
next
  assume "args ev ''votingEpochId'' = Some (PyInt n) \<and>
    args ev ''feeds'' = Some (PyList (map PyInt fs)) \<and>
    args ev ''decimals'' = Some (PyList (map PyInt ds))"
  then show "FastUpdateFeeds_from_dict il ev =
        Inr \<lparr> voting_round_id = n, emitter_address = EventData.address ev,
              transaction_hash = transactionHash ev, feeds = fs, decimals = ds \<rparr>"
    by (simp add: FastUpdateFeeds_from_dict_def)
qed

theorem FastUpdateFeeds_voting_round_id_witness:
  "FastUpdateFeeds_from_dict (\<lambda>s. None)
      (sample_event [''votingRoundId'' \<mapsto> PyInt 42, ''feeds'' \<mapsto> PyList [PyInt 1, PyInt 2],
                     ''decimals'' \<mapsto> PyList [PyInt 5, PyInt 5]])
     = Inl (KeyError ''votingEpochId'') \<and>
   FastUpdateFeeds_from_dict (\<lambda>s. None)
      (sample_event [''votingEpochId'' \<mapsto> PyInt 42, ''feeds'' \<mapsto> PyList [PyInt 1, PyInt 2],
                     ''decimals'' \<mapsto> PyList [PyInt 5, PyInt 5]])
     = Inr \<lparr> voting_round_id = 42,
             emitter_address = ''0xaD67FE66660Fb8dFE9d6b1b4240d8650e30F6019'',
             transaction_hash = [0x12, 0x34], feeds = [1, 2], decimals = [5, 5] \<rparr>"
proof -
  let ?a = "[''votingRoundId'' \<mapsto> PyInt 42, ''feeds'' \<mapsto> PyList [PyInt 1, PyInt 2],
             ''decimals'' \<mapsto> PyList [PyInt 5, PyInt 5]]"
  let ?b = "[''votingEpochId'' \<mapsto> PyInt 42, ''feeds'' \<mapsto> PyList [PyInt 1, PyInt 2],
             ''decimals'' \<mapsto> PyList [PyInt 5, PyInt 5]]"
  have 1: "args (sample_event ?a) ''votingEpochId'' = None"
    by (simp add: sample_event_def)
  have 2: "args (sample_event ?b) ''votingEpochId'' = Some (PyInt 42) \<and>
           args (sample_event ?b) ''feeds'' = Some (PyList (map PyInt [1, 2])) \<and>
           args (sample_event ?b) ''decimals'' = Some (PyList (map PyInt [5, 5]))"
    by (simp add: sample_event_def)
  from FastUpdateFeeds_voting_round_id[of "sample_event ?a" "\<lambda>s. None"] 1
  have a: "FastUpdateFeeds_from_dict (\<lambda>s. None) (sample_event ?a)
             = Inl (KeyError ''votingEpochId'')"
    by blast
  from FastUpdateFeeds_voting_round_id[of "sample_event ?b" "\<lambda>s. None" 42 "[1, 2]" "[5, 5]"] 2
  have b: "FastUpdateFeeds_from_dict (\<lambda>s. None) (sample_event ?b) =
        Inr \<lparr> voting_round_id = 42, emitter_address = EventData.address (sample_event ?b),
              transaction_hash = transactionHash (sample_event ?b),
              feeds = [1, 2], decimals = [5, 5] \<rparr>"
    by blast
  from a b show ?thesis by (simp add: sample_event_def)
qed

text \<open>
  C3. The claim is that decoding an \<open>AttestationRequest\<close> whose payload is shorter
  than 64 bytes fails. \<open>from_dict\<close> stores the payload without looking at its length:
  a log with a 3-byte payload decodes to a value that holds those 3 bytes.
\<close>

theorem AttestationRequest_short_payload_counterexample:
  "AttestationRequest_from_dict (sample_event [''data'' \<mapsto> PyBytes [1, 2, 3]]) (0::nat) =
     Inr \<lparr> log_index = 7, block = 100, voting_epoch_id = 0, data = PyBytes [1, 2, 3] \<rparr>"
  by (simp add: AttestationRequest_from_dict_def sample_event_def)

text \<open>
  C3, amended. \<open>AttestationRequest.from_dict\<close> does not check the payload's length: it
  returns a value holding the \<open>data\<close> argument as it is whenever that argument is
  present, and fails (with \<open>KeyError\<close>) only when it is absent. The accessor
  \<open>attestation_type\<close> hands the slice \<open>data[0:32]\<close> to the constructor \<open>AttestationType\<close>
  and \<open>source_id\<close> hands \<open>data[32:64]\<close> to \<open>AttestationSource\<close>; for a payload of at
  least 64 bytes the two slices are 32 bytes each, bytes 0 to 32 and bytes 32 to 64 of
  \<open>data\<close>. For a shorter payload a slice is shorter than 32 bytes, so with constructors
  that accept 32-byte values only, as the library's do, \<open>source_id\<close> raises (and
  \<open>attestation_type\<close> too below 32 bytes): no accessor returns a truncated value.
\<close>

theorem AttestationRequest_no_length_check:
  "(args ev ''data'' = Some d \<longrightarrow>
      AttestationRequest_from_dict ev ve =
        Inr \<lparr> log_index = logIndex ev, block = blockNumber ev, voting_epoch_id = ve, data = d \<rparr>) \<and>
   (args ev ''data'' = None \<longrightarrow> AttestationRequest_from_dict ev ve = Inl (KeyError ''data'')) \<and>
   (data r = PyBytes b \<longrightarrow>
      attestation_type mk_type r = mk_type (PyBytes (take 32 b)) \<and>
      source_id mk_source r = mk_source (PyBytes (take 32 (drop 32 b))) \<and>
      (64 \<le> length b \<longrightarrow>
         length (take 32 b) = 32 \<and> length (take 32 (drop 32 b)) = 32 \<and>
         (\<forall>i<32. take 32 b ! i = b ! i \<and> take 32 (drop 32 b) ! i = b ! (32 + i))) \<and>
      (length b < 64 \<and>
       (\<forall>v s. mk_source v = Inr s \<longrightarrow> (\<exists>x. v = PyBytes x \<and> length x = 32)) \<longrightarrow>
         (\<exists>e. source_id mk_source r = Inl e)) \<and>
      (length b < 32 \<and>
       (\<forall>v t. mk_type v = Inr t \<longrightarrow> (\<exists>x. v = PyBytes x \<and> length x = 32)) \<longrightarrow>
         (\<exists>e. attestation_type mk_type r = Inl e)))"
proof (intro conjI impI)
  assume "args ev ''data'' = Some d"
  then show "AttestationRequest_from_dict ev ve =
        Inr \<lparr> log_index = logIndex ev, block = blockNumber ev, voting_epoch_id = ve, data = d \<rparr>"
    by (simp add: AttestationRequest_from_dict_def)
next
  assume "args ev ''data'' = None"
  then show "AttestationRequest_from_dict ev ve = Inl (KeyError ''data'')"
    by (simp add: AttestationRequest_from_dict_def)
next
  assume "data r = PyBytes b"
  then show "attestation_type mk_type r = mk_type (PyBytes (take 32 b))"
    by (simp add: attestation_type_def)
next
  assume "data r = PyBytes b"
  then show "source_id mk_source r = mk_source (PyBytes (take 32 (drop 32 b)))"
    by (simp add: source_id_def)
next
  assume "64 \<le> length b"
  then show "length (take 32 b) = 32" by simp
next
  assume "64 \<le> length b"
  then show "length (take 32 (drop 32 b)) = 32" by simp
next
  assume "64 \<le> length b"
  then show "\<forall>i<32. take 32 b ! i = b ! i \<and> take 32 (drop 32 b) ! i = b ! (32 + i)" by simp
next
  assume r: "data r = PyBytes b"
    and h: "length b < 64 \<and>
       (\<forall>v s. mk_source v = Inr s \<longrightarrow> (\<exists>x. v = PyBytes x \<and> length x = 32))"
  have eq: "source_id mk_source r = mk_source (PyBytes (take 32 (drop 32 b)))"
    using r by (simp add: source_id_def)
  show "\<exists>e. source_id mk_source r = Inl e"
  proof (cases "mk_source (PyBytes (take 32 (drop 32 b)))")
    case (Inl e)
    with eq show ?thesis by simp
  next
    case (Inr s)
    with h have "length (take 32 (drop 32 b)) = 32" by blast
    moreover from h have "length b - 32 < 32" by arith
    then have "length (take 32 (drop 32 b)) < 32" by simp
    ultimately show ?thesis by simp
  qed
next
  assume r: "data r = PyBytes b"
    and h: "length b < 32 \<and>
       (\<forall>v t. mk_type v = Inr t \<longrightarrow> (\<exists>x. v = PyBytes x \<and> length x = 32))"
  have eq: "attestation_type mk_type r = mk_type (PyBytes (take 32 b))"
    using r by (simp add: attestation_type_def)
  show "\<exists>e. attestation_type mk_type r = Inl e"
  proof (cases "mk_type (PyBytes (take 32 b))")
    case (Inl e)
    with eq show ?thesis by simp
  next
    case (Inr t)
    with h have "length (take 32 b) = 32" by blast
    moreover from h have "length (take 32 b) < 32" by simp
    ultimately show ?thesis by simp
  qed
qed

theorem AttestationRequest_no_length_check_witness:
  "AttestationRequest_from_dict
      (sample_event [''data'' \<mapsto> PyBytes (replicate 32 0xAA @ replicate 32 0xBB)]) (0::nat) =
     Inr \<lparr> log_index = 7, block = 100, voting_epoch_id = 0,
           data = PyBytes (replicate 32 0xAA @ replicate 32 0xBB) \<rparr> \<and>
   attestation_type bytes32
     \<lparr> log_index = 7, block = 100, voting_epoch_id = 0::nat,
       data = PyBytes (replicate 32 0xAA @ replicate 32 0xBB) \<rparr>
     = Inr (replicate 32 0xAA) \<and>
   source_id bytes32
     \<lparr> log_index = 7, block = 100, voting_epoch_id = 0::nat,
       data = PyBytes (replicate 32 0xAA @ replicate 32 0xBB) \<rparr>
     = Inr (replicate 32 0xBB) \<and>
   attestation_type bytes32
     \<lparr> log_index = 7, block = 100, voting_epoch_id = 0::nat, data = PyBytes [1, 2, 3] \<rparr>
     = Inl ValueError \<and>
   source_id bytes32
     \<lparr> log_index = 7, block = 100, voting_epoch_id = 0::nat, data = PyBytes [1, 2, 3] \<rparr>
     = Inl ValueError"
proof -
  let ?b = "replicate 32 0xAA @ replicate 32 (0xBB :: byte)"
  let ?ev = "sample_event [''data'' \<mapsto> PyBytes ?b]"
  let ?r = "\<lparr> log_index = 7, block = 100, voting_epoch_id = 0::nat, data = PyBytes ?b \<rparr>"
  let ?s = "\<lparr> log_index = 7, block = 100, voting_epoch_id = 0::nat, data = PyBytes [1, 2, 3] \<rparr>"
  have 1: "args ?ev ''data'' = Some (PyBytes ?b)" by (simp add: sample_event_def)
  have 2: "data ?r = PyBytes ?b" by simp
  have 3: "data ?s = PyBytes [1, 2, 3]" by simp
  note t = AttestationRequest_no_length_check[of ?ev "PyBytes ?b" "0::nat" ?r ?b bytes32 bytes32]
  note u = AttestationRequest_no_length_check[of ?ev "PyBytes ?b" "0::nat" ?s "[1, 2, 3]"
      bytes32 bytes32]
  from t 1 have a: "AttestationRequest_from_dict ?ev (0::nat) =
        Inr \<lparr> log_index = logIndex ?ev, block = blockNumber ?ev, voting_epoch_id = 0,
              data = PyBytes ?b \<rparr>" by blast
  from t 2 have b: "attestation_type bytes32 ?r = bytes32 (PyBytes (take 32 ?b))"
    and c: "source_id bytes32 ?r = bytes32 (PyBytes (take 32 (drop 32 ?b)))" by blast+
  from u 3 have d: "attestation_type bytes32 ?s = bytes32 (PyBytes (take 32 [1, 2, 3]))"
    and e: "source_id bytes32 ?s = bytes32 (PyBytes (take 32 (drop 32 [1, 2, 3])))" by blast+
  from a b c d e show ?thesis by (simp add: sample_event_def bytes32_def)
qed

section \<open>Message reconstruction: the claims\<close>

text \<open>
  C5. The claim is that \<open>to_message\<close> returns the digest for every message whose
  merkle root is valid hex of 32 bytes. \<open>protocol_id.to_bytes(1, "big")\<close> raises
  \<open>OverflowError\<close> for a protocol id that is not a byte: with \<open>protocol_id = 256\<close> and
  the root of 32 zero bytes nothing is returned.
\<close>

theorem to_message_overflow_counterexample:
  "bytes_fromhex zero_root = Inr (replicate 32 0) \<and>
   to_message sample_hash (\<lambda>b. b) (\<lambda>b. b) (sample_message 256 zero_root) = Inl OverflowError"
  by (simp add: zero_root_bytes to_message_eq sample_message_def)

text \<open>
  C5, amended. For every message whose \<open>merkle_root\<close> is valid hex of exactly 32
  bytes, whose \<open>protocol_id\<close> is in 0..255 and whose \<open>voting_round_id\<close> is in
  0..2^32-1, \<open>to_message\<close> returns \<open>_hash_eip191_message(encode_defunct(keccak(msg)))\<close>
  for the 38-byte \<open>msg\<close> made of the protocol id as one byte, the round id as four
  bytes most significant first, one byte 1 or 0 for \<open>is_secure_random\<close>, and the 32
  root bytes.
\<close>

theorem to_message_digest:
  assumes "bytes_fromhex (merkle_root m) = Inr root" and "length root = 32"
    and "0 \<le> protocol_id m" and "protocol_id m < 256"
    and "0 \<le> ProtocolMessageRelayed.voting_round_id m"
    and "ProtocolMessageRelayed.voting_round_id m < 4294967296"
  shows "\<exists>p r3 r2 r1 r0 s.
           to_message keccak encode_defunct hash_eip191_message m =
             Inr (hash_eip191_message (encode_defunct (keccak ([p] @ [r3, r2, r1, r0] @ [s] @ root)))) \<and>
           length ([p] @ [r3, r2, r1, r0] @ [s] @ root) = 38 \<and>
           uint p = protocol_id m \<and>
           uint r3 * 16777216 + uint r2 * 65536 + uint r1 * 256 + uint r0
             = ProtocolMessageRelayed.voting_round_id m \<and>
           s = (if is_secure_random m then 1 else 0)"
proof -
  let ?v = "ProtocolMessageRelayed.voting_round_id m"
  have "to_message keccak encode_defunct hash_eip191_message m =
      Inr (hash_eip191_message (encode_defunct (keccak
        ([word_of_int (protocol_id m)] @
         [word_of_int (?v div 16777216), word_of_int (?v div 65536),
          word_of_int (?v div 256), word_of_int ?v] @
         [if is_secure_random m then 1 else 0] @ root))))"
    using assms by (simp add: to_message_eq)
  moreover have "uint (word_of_int (protocol_id m) :: byte) = protocol_id m"
    using assms by (simp add: byte_value)
  moreover note big_endian_value[OF assms(5,6)]
  ultimately show ?thesis using assms(2) by (intro exI conjI) (assumption | simp)+
qed

theorem to_message_digest_witness:
  "to_message sample_hash (\<lambda>b. b) (\<lambda>b. b) (sample_message 200 zero_root) =
     Inr (sample_hash ([200, 0, 1, 0xe2, 0x40, 1] @ replicate 32 0))"
proof -
  let ?m = "sample_message 200 zero_root"
  have h: "bytes_fromhex (merkle_root ?m) = Inr (replicate 32 0)"
    "length (replicate 32 (0::byte)) = 32" "0 \<le> protocol_id ?m" "protocol_id ?m < 256"
    "0 \<le> ProtocolMessageRelayed.voting_round_id ?m"
    "ProtocolMessageRelayed.voting_round_id ?m < 4294967296"
    by (simp_all add: sample_message_def zero_root_bytes)
  from to_message_digest[OF h, of sample_hash "\<lambda>b. b" "\<lambda>b. b"]
  obtain msg where "to_message sample_hash (\<lambda>b. b) (\<lambda>b. b) ?m = Inr (sample_hash msg)"
    by auto
  moreover have "to_message sample_hash (\<lambda>b. b) (\<lambda>b. b) ?m =
      Inr (sample_hash ([200, 0, 1, 482, 123456, 1] @ replicate 32 0))"
    by (simp add: to_message_eq sample_message_def zero_root_bytes)
  ultimately show ?thesis by (simp only: sample_round_bytes)
qed

text \<open>
  C6. The claim is that \<open>to_message\<close> fails whenever the merkle root is not valid hex
  of exactly 32 bytes. The length is never checked: with the one-byte root \<open>"00"\<close> a
  digest is returned, over a 7-byte message.
\<close>

theorem to_message_short_root_counterexample:
  "bytes_fromhex ''00'' = Inr [0] \<and>
   to_message sample_hash (\<lambda>b. b) (\<lambda>b. b) (sample_message 200 ''00'') =
     Inr (sample_hash [200, 0, 1, 0xe2, 0x40, 1, 0])"
proof -
  have "to_message sample_hash (\<lambda>b. b) (\<lambda>b. b) (sample_message 200 ''00'') =
     Inr (sample_hash [200, 0, 1, 482, 123456, 1, 0])"
    by (simp add: to_message_eq sample_message_def is_space_def hex_value_def)
  moreover have "bytes_fromhex ''00'' = Inr [0]"
    by (simp add: is_space_def hex_value_def)
  ultimately show ?thesis by (simp only: sample_round_bytes)
qed

text \<open>
  C6, amended. \<open>to_message\<close> fails in two ways only. It raises \<open>OverflowError\<close>
  exactly when \<open>protocol_id\<close> is outside 0..255 or \<open>voting_round_id\<close> is outside
  0..2^32-1. With both in range it raises \<open>ValueError\<close> exactly when \<open>merkle_root\<close> is
  not a hex string that \<open>bytes.fromhex\<close> accepts, and returns a digest exactly when it
  is one, of whatever length.
\<close>

theorem to_message_failures:
  "(to_message keccak encode_defunct hash_eip191_message m = Inl OverflowError \<longleftrightarrow>
      protocol_id m < 0 \<or> 256 \<le> protocol_id m \<or>
      ProtocolMessageRelayed.voting_round_id m < 0 \<or>
      4294967296 \<le> ProtocolMessageRelayed.voting_round_id m) \<and>
   (to_message keccak encode_defunct hash_eip191_message m = Inl ValueError \<longleftrightarrow>
      0 \<le> protocol_id m \<and> protocol_id m < 256 \<and>
      0 \<le> ProtocolMessageRelayed.voting_round_id m \<and>
      ProtocolMessageRelayed.voting_round_id m < 4294967296 \<and>
      (\<exists>e. bytes_fromhex (merkle_root m) = Inl e)) \<and>
   ((\<exists>digest. to_message keccak encode_defunct hash_eip191_message m = Inr digest) \<longleftrightarrow>
      0 \<le> protocol_id m \<and> protocol_id m < 256 \<and>
      0 \<le> ProtocolMessageRelayed.voting_round_id m \<and>
      ProtocolMessageRelayed.voting_round_id m < 4294967296 \<and>
      (\<exists>root. bytes_fromhex (merkle_root m) = Inr root)) \<and>
   (\<forall>e. to_message keccak encode_defunct hash_eip191_message m = Inl e \<longrightarrow>
      e = OverflowError \<or> e = ValueError)"
  by (cases "bytes_fromhex (merkle_root m)") (auto simp: to_message_eq)

theorem to_message_failures_witness:
  "to_message sample_hash (\<lambda>b. b) (\<lambda>b. b) (sample_message 200 ''zz'') = Inl ValueError \<and>
   to_message sample_hash (\<lambda>b. b) (\<lambda>b. b) (sample_message (-1) zero_root) = Inl OverflowError"
proof -
  have 1: "bytes_fromhex (merkle_root (sample_message 200 ''zz'')) = Inl ValueError"
    by (simp add: sample_message_def is_space_def hex_value_def)
  have 2: "0 \<le> protocol_id (sample_message 200 ''zz'')" "protocol_id (sample_message 200 ''zz'') < 256"
    "0 \<le> ProtocolMessageRelayed.voting_round_id (sample_message 200 ''zz'')"
    "ProtocolMessageRelayed.voting_round_id (sample_message 200 ''zz'') < 4294967296"
    "protocol_id (sample_message (-1) zero_root) < 0"
    by (simp_all add: sample_message_def)
  from to_message_failures[of sample_hash "\<lambda>b. b" "\<lambda>b. b" "sample_message 200 ''zz''"] 1 2
  have a: "to_message sample_hash (\<lambda>b. b) (\<lambda>b. b) (sample_message 200 ''zz'') = Inl ValueError"
    by blast
  from to_message_failures[of sample_hash "\<lambda>b. b" "\<lambda>b. b" "sample_message (-1) zero_root"] 2
  have b: "to_message sample_hash (\<lambda>b. b) (\<lambda>b. b) (sample_message (-1) zero_root) = Inl OverflowError"
    by blast
  from a b show ?thesis by simp
qed

section \<open>Signatures: the claims\<close>

text \<open>
  C1. The claim is that \<open>event_signature\<close> expands a tuple component that is itself a
  tuple or a tuple array, at any depth. The inner loop appends
  \<open>tuple_component["type"]\<close> as it stands: for an event \<open>E\<close> with one \<open>tuple[]\<close>
  parameter whose components are a \<open>tuple\<close> of \<open>(uint256, address)\<close> and a \<open>bool\<close>, the
  string hashed is \<open>E((tuple,bool)[])\<close>, where the recursive canonical form is
  \<open>E(((uint256,address),bool)[])\<close>.
\<close>

theorem event_signature_nested_tuple:
  "event_signature_text nested_event = Inr ''E((tuple,bool)[])'' \<and>
   spec_signature_text ''E''
     [AbiInput ''items'' ''tuple[]''
        (Some [AbiInput ''pair'' ''tuple''
                 (Some [AbiInput ''amount'' ''uint256'' None,
                        AbiInput ''owner'' ''address'' None]),
               AbiInput ''flag'' ''bool'' None])]
     = ''E(((uint256,address),bool)[])'' \<and>
   event_signature_text nested_event \<noteq>
     Inr (spec_signature_text ''E''
       [AbiInput ''items'' ''tuple[]''
          (Some [AbiInput ''pair'' ''tuple''
                   (Some [AbiInput ''amount'' ''uint256'' None,
                          AbiInput ''owner'' ''address'' None]),
                 AbiInput ''flag'' ''bool'' None])])"
  by (simp add: event_signature_text_def nested_event_def spec_signature_text_def)

text \<open>
  C2. For a function entry that has \<open>inputs\<close>, the full name is the name followed by
  the parenthesized comma-joined input types, into which the code puts no space, and
  the descriptor's signature is the hex encoding of the first 4 bytes of the hash of
  the full name: 8 hexadecimal digits, so no \<open>0x\<close> in front. The hash is any function
  that returns 32 bytes, as keccak-256 does.
\<close>

theorem function_selector:
  assumes "\<forall>b. length (keccak b) = 32"
    and "entry_inputs a = Some inputs"
  shows "to_full_name n a = Inr (n @ ''('' @ comma_join (map input_type inputs) @ '')'') \<and>
         Function_init keccak n a =
           Inr \<lparr> Function.name = n, Function.abi = a,
                 Function.signature =
                   bytes_hex (take 4 (keccak (encode_text
                     (n @ ''('' @ comma_join (map input_type inputs) @ '')'')))) \<rparr> \<and>
         length (function_signature keccak (n @ ''('' @ comma_join (map input_type inputs) @ '')'')) = 8 \<and>
         set (function_signature keccak (n @ ''('' @ comma_join (map input_type inputs) @ '')''))
           \<subseteq> set ''0123456789abcdef'' \<and>
         take 2 (function_signature keccak (n @ ''('' @ comma_join (map input_type inputs) @ '')''))
           \<noteq> ''0x'' \<and>
         (CHR '' '' \<notin> set n \<and> (\<forall>i\<in>set inputs. CHR '' '' \<notin> set (input_type i)) \<longrightarrow>
            CHR '' '' \<notin> set (n @ ''('' @ comma_join (map input_type inputs) @ '')''))"
proof -
  let ?full = "n @ ''('' @ comma_join (map input_type inputs) @ '')''"
  let ?sig = "function_signature keccak ?full"
  have full: "to_full_name n a = Inr ?full"
    using assms(2) by (simp add: to_full_name_def)
  have sig: "?sig = bytes_hex (take 4 (keccak (encode_text ?full)))"
    by (rule function_signature_bytes)
  have init: "Function_init keccak n a =
      Inr \<lparr> Function.name = n, Function.abi = a,
            Function.signature = bytes_hex (take 4 (keccak (encode_text ?full))) \<rparr>"
    unfolding Function_init_def full by (simp add: function_signature_bytes)
  have len: "length ?sig = 8"
    unfolding sig using assms(1) by simp
  have digits: "set ?sig \<subseteq> set ''0123456789abcdef''"
    unfolding sig by (rule bytes_hex_digits)
  have "CHR ''x'' \<notin> set ?sig"
    using digits by auto
  then have nopre: "take 2 ?sig \<noteq> ''0x''"
    by (metis in_set_takeD list.set_intros(1,2))
  have nospace: "CHR '' '' \<notin> set n \<and> (\<forall>i\<in>set inputs. CHR '' '' \<notin> set (input_type i)) \<longrightarrow>
            CHR '' '' \<notin> set ?full"
    using comma_join_no_space[of "map input_type inputs"] by auto
  from full init len digits nopre nospace show ?thesis by blast
qed

theorem function_selector_witness:
  "to_full_name ''submit'' submit_function = Inr ''submit(uint32,bytes)'' \<and>
   Function_init sample_hash ''submit'' submit_function =
     Inr \<lparr> Function.name = ''submit'', Function.abi = submit_function,
           Function.signature = ''14141414'' \<rparr>"
proof -
  have inputs: "entry_inputs submit_function =
      Some [AbiInput ''round'' ''uint32'' None, AbiInput ''payload'' ''bytes'' None]"
    by (simp add: submit_function_def)
  have "replicate 4 (20::byte) = [20, 20, 20, 20]"
    by (simp add: numeral_eq_Suc)
  then have hex:
    "bytes_hex (take 4 (sample_hash (encode_text ''submit(uint32,bytes)''))) = ''14141414''"
    by (simp add: sample_hash_def encode_text_def bytes_hex_def byte_hex_def hex_digit_def)
  from function_selector[OF sample_hash_length inputs, of "''submit''"] hex
  show ?thesis by simp
qed




section \<open>Registry resolution: the claim\<close>

text \<open>
  C4. The claim is that resolution fails when the registry returns the zero address
  for a name. \<open>get_contracts\<close> does not look at the address: with a registry that
  returns the zero address for \<open>Relay\<close>, a \<open>Contracts\<close> value is produced and its
  \<open>Relay\<close> contract has the zero address.
\<close>

theorem get_contracts_zero_address_counterexample:
  "registry_without_relay ''Relay'' = Inr zero_address \<and>
   (case get_contracts sample_hash sample_artifacts registry_without_relay sample_checksum of
      Inl e \<Rightarrow> False
    | Inr c \<Rightarrow> Contract.address (Relay c) = zero_address \<and>
              Contract.address (VoterRegistry c) = sample_address_mixed)"
proof -
  let ?res = "resolve sample_hash sample_artifacts registry_without_relay sample_checksum"
  have other: "n \<noteq> ''Relay'' \<Longrightarrow> \<exists>c. ?res n = Inr c \<and> Contract.address c = sample_address_mixed"
    for n
    using sample_resolve[of registry_without_relay n sample_address_mixed sample_hash]
    by (auto simp: registry_without_relay_def)
  obtain c1 where c1: "?res ''VoterRegistry'' = Inr c1" "Contract.address c1 = sample_address_mixed"
    using other[of "''VoterRegistry''"] by auto
  obtain c2 where c2: "?res ''FlareSystemsCalculator'' = Inr c2"
    using other[of "''FlareSystemsCalculator''"] by auto
  obtain c3 where c3: "?res ''FlareSystemsManager'' = Inr c3"
    using other[of "''FlareSystemsManager''"] by auto
  obtain c4 where c4: "?res ''Relay'' = Inr c4" "Contract.address c4 = zero_address"
    using sample_resolve[of registry_without_relay "''Relay''" zero_address sample_hash]
    by (auto simp: registry_without_relay_def)
  obtain c5 where c5: "?res ''Submission'' = Inr c5"
    using other[of "''Submission''"] by auto
  obtain c6 where c6: "?res ''FdcHub'' = Inr c6"
    using other[of "''FdcHub''"] by auto
  obtain c7 where c7: "?res ''FastUpdater'' = Inr c7"
    using other[of "''FastUpdater''"] by auto
  have "get_contracts sample_hash sample_artifacts registry_without_relay sample_checksum =
      Inr \<lparr> VoterRegistry = c1, FlareSystemsCalculator = c2, FlareSystemsManager = c3,
            Relay = c4, Submission = c5, FdcHub = c6, FastUpdater = c7 \<rparr>"
    by (simp add: get_contracts_chain c1 c2 c3 c4 c5 c6 c7)
  with c1 c4 show ?thesis by (simp add: registry_without_relay_def)
qed

text \<open>
  C4, amended. \<open>get_contracts\<close> resolves the seven names in declaration order and
  performs no zero-address check: the address of each contract is the checksummed
  form of whatever the registry returned for its name, the zero address included.
  The resolution is all or nothing: when the registry call, the checksum conversion
  or the construction of the \<open>Contract\<close> raises for any name, the whole resolution fails
  with that exception and no \<open>Contracts\<close> value is produced; a \<open>Contracts\<close> value is
  produced exactly when all seven names resolve.
\<close>

theorem get_contracts_all_or_nothing:
  "get_contracts k l reg cs =
     bind_err (resolve k l reg cs ''VoterRegistry'') (\<lambda>c1.
     bind_err (resolve k l reg cs ''FlareSystemsCalculator'') (\<lambda>c2.
     bind_err (resolve k l reg cs ''FlareSystemsManager'') (\<lambda>c3.
     bind_err (resolve k l reg cs ''Relay'') (\<lambda>c4.
     bind_err (resolve k l reg cs ''Submission'') (\<lambda>c5.
     bind_err (resolve k l reg cs ''FdcHub'') (\<lambda>c6.
     bind_err (resolve k l reg cs ''FastUpdater'') (\<lambda>c7.
       Inr \<lparr> VoterRegistry = c1, FlareSystemsCalculator = c2, FlareSystemsManager = c3,
             Relay = c4, Submission = c5, FdcHub = c6, FastUpdater = c7 \<rparr>))))))) \<and>
   ((\<exists>n\<in>set attr_names. \<exists>e. resolve k l reg cs n = Inl e) \<longrightarrow>
      (\<exists>e. get_contracts k l reg cs = Inl e)) \<and>
   ((\<forall>n\<in>set attr_names. \<exists>c. resolve k l reg cs n = Inr c) \<longrightarrow>
      (\<exists>c. get_contracts k l reg cs = Inr c)) \<and>
   (\<forall>n c. resolve k l reg cs n = Inr c \<longrightarrow>
      Contract.name c = n \<and>
      (\<exists>returned. reg n = Inr returned \<and> cs returned = Inr (Contract.address c)))"
proof (intro conjI)
  show "get_contracts k l reg cs =
     bind_err (resolve k l reg cs ''VoterRegistry'') (\<lambda>c1.
     bind_err (resolve k l reg cs ''FlareSystemsCalculator'') (\<lambda>c2.
     bind_err (resolve k l reg cs ''FlareSystemsManager'') (\<lambda>c3.
     bind_err (resolve k l reg cs ''Relay'') (\<lambda>c4.
     bind_err (resolve k l reg cs ''Submission'') (\<lambda>c5.
     bind_err (resolve k l reg cs ''FdcHub'') (\<lambda>c6.
     bind_err (resolve k l reg cs ''FastUpdater'') (\<lambda>c7.
       Inr \<lparr> VoterRegistry = c1, FlareSystemsCalculator = c2, FlareSystemsManager = c3,
             Relay = c4, Submission = c5, FdcHub = c6, FastUpdater = c7 \<rparr>)))))))"
    by (rule get_contracts_chain)
next
  show "(\<exists>n\<in>set attr_names. \<exists>e. resolve k l reg cs n = Inl e) \<longrightarrow>
      (\<exists>e. get_contracts k l reg cs = Inl e)"
  proof
    assume "\<exists>n\<in>set attr_names. \<exists>e. resolve k l reg cs n = Inl e"
    then obtain n e where n: "n \<in> set attr_names" and e: "resolve k l reg cs n = Inl e"
      by blast
    show "\<exists>e. get_contracts k l reg cs = Inl e"
    proof (cases "get_contracts k l reg cs")
      case (Inl e')
      then show ?thesis by blast
    next
      case (Inr c)
      then obtain c1 c2 c3 c4 c5 c6 c7 where
        "resolve k l reg cs ''VoterRegistry'' = Inr c1"
        "resolve k l reg cs ''FlareSystemsCalculator'' = Inr c2"
        "resolve k l reg cs ''FlareSystemsManager'' = Inr c3"
        "resolve k l reg cs ''Relay'' = Inr c4"
        "resolve k l reg cs ''Submission'' = Inr c5"
        "resolve k l reg cs ''FdcHub'' = Inr c6"
        "resolve k l reg cs ''FastUpdater'' = Inr c7"
        unfolding get_contracts_chain bind_err_eq_Inr by blast
      with n e show ?thesis by (auto simp: attr_names_def)
    qed
  qed
next
  show "(\<forall>n\<in>set attr_names. \<exists>c. resolve k l reg cs n = Inr c) \<longrightarrow>
      (\<exists>c. get_contracts k l reg cs = Inr c)"
  proof
    assume a: "\<forall>n\<in>set attr_names. \<exists>c. resolve k l reg cs n = Inr c"
    then obtain c1 c2 c3 c4 c5 c6 c7 where
        "resolve k l reg cs ''VoterRegistry'' = Inr c1"
        "resolve k l reg cs ''FlareSystemsCalculator'' = Inr c2"
        "resolve k l reg cs ''FlareSystemsManager'' = Inr c3"
        "resolve k l reg cs ''Relay'' = Inr c4"
        "resolve k l reg cs ''Submission'' = Inr c5"
        "resolve k l reg cs ''FdcHub'' = Inr c6"
        "resolve k l reg cs ''FastUpdater'' = Inr c7"
      unfolding attr_names_def by (metis list.set_intros(1,2))
    then show "\<exists>c. get_contracts k l reg cs = Inr c"
      by (simp add: get_contracts_chain)
  qed
next
  show "\<forall>n c. resolve k l reg cs n = Inr c \<longrightarrow>
      Contract.name c = n \<and>
      (\<exists>returned. reg n = Inr returned \<and> cs returned = Inr (Contract.address c))"
    using resolve_fields by blast
qed

theorem get_contracts_all_or_nothing_witness:
  "(\<exists>c. get_contracts sample_hash sample_artifacts registry_complete sample_checksum = Inr c) \<and>
   (\<exists>e. get_contracts sample_hash sample_artifacts registry_failing sample_checksum = Inl e)"
proof -
  have ok: "\<forall>n\<in>set attr_names.
      \<exists>c. resolve sample_hash sample_artifacts registry_complete sample_checksum n = Inr c"
    using sample_resolve[of registry_complete _ sample_address_mixed sample_hash]
    by (auto simp: registry_complete_def)
  have "resolve sample_hash sample_artifacts registry_failing sample_checksum ''FdcHub''
      = Inl OSError"
    by (simp add: resolve_def registry_failing_def)
  then have bad: "\<exists>n\<in>set attr_names.
      \<exists>e. resolve sample_hash sample_artifacts registry_failing sample_checksum n = Inl e"
    by (auto simp: attr_names_def)
  from get_contracts_all_or_nothing[of sample_hash sample_artifacts registry_complete
      sample_checksum] ok
  have 1: "\<exists>c. get_contracts sample_hash sample_artifacts registry_complete sample_checksum = Inr c"
    by blast
  from get_contracts_all_or_nothing[of sample_hash sample_artifacts registry_failing
      sample_checksum] bad
  have 2: "\<exists>e. get_contracts sample_hash sample_artifacts registry_failing sample_checksum = Inl e"
    by blast
  from 1 2 show ?thesis by blast
qed

end
